theory Spec2Isabelle
  imports Complex_Main
begin

section \<open>Numbers\<close>

text \<open>
  A TypeScript \<open>number\<close> is modelled as a real: the trigonometric and arithmetic
  operations are the mathematical ones, with no rounding error, no NaN, no infinity and
  no signed zero. \<open>Math.ceil\<close> and \<open>Math.round\<close> return integers, so their results
  are of type \<open>int\<close>.
\<close>

definition Math_ceil :: "real \<Rightarrow> int" where
  "Math_ceil x = \<lceil>x\<rceil>"

text \<open>\<open>Math.round\<close> rounds to the nearest integer, halves towards plus infinity.\<close>

definition Math_round :: "real \<Rightarrow> int" where
  "Math_round x = \<lfloor>x + 1 / 2\<rfloor>"

text \<open>
  \<open>Math.atan2 y x\<close> is the angle of the point \<open>(x, y)\<close>, in \<open>(-pi, pi]\<close>; at the
  origin it is \<open>0\<close>.
\<close>

definition Math_atan2 :: "real \<Rightarrow> real \<Rightarrow> real" where
  "Math_atan2 y x =
     (if 0 < x then arctan (y / x)
      else if x < 0 then (if 0 \<le> y then arctan (y / x) + pi else arctan (y / x) - pi)
      else if 0 < y then pi / 2
      else if y < 0 then - (pi / 2)
      else 0)"

section \<open>LocationContext: distance and ETA\<close>

text \<open>The intermediate \<open>a\<close> of \<open>calculateDistance\<close>.\<close>

definition haversine_a :: "real \<Rightarrow> real \<Rightarrow> real \<Rightarrow> real \<Rightarrow> real" where
  "haversine_a lat1 lon1 lat2 lon2 =
     (let dLat = (lat2 - lat1) * pi / 180;
          dLon = (lon2 - lon1) * pi / 180
      in sin (dLat / 2) * sin (dLat / 2) +
         cos (lat1 * pi / 180) * cos (lat2 * pi / 180) *
         sin (dLon / 2) * sin (dLon / 2))"

definition calculateDistance :: "real \<Rightarrow> real \<Rightarrow> real \<Rightarrow> real \<Rightarrow> real" where
  "calculateDistance lat1 lon1 lat2 lon2 =
     (let R = 6371;
          a = haversine_a lat1 lon1 lat2 lon2;
          c = 2 * Math_atan2 (sqrt a) (sqrt (1 - a))
      in R * c)"

text \<open>
  \<open>calculateETA distance averageSpeed\<close>; the second argument is optional in the source
  and defaults to 30. Over the reals the argument of \<open>Math.ceil\<close> at the default speed
  is exactly twice the distance. The source rounds the quotient and the product to
  binary64, so where twice the distance is an integer its result can be one more than
  here: at \<open>-61.5\<close> the source returns \<open>-122\<close>, this definition \<open>-123\<close>.
\<close>

definition calculateETA :: "real \<Rightarrow> real \<Rightarrow> int" where
  "calculateETA distance averageSpeed = Math_ceil ((distance / averageSpeed) * 60)"

definition calculateETA_default :: "real \<Rightarrow> int" where
  "calculateETA_default distance = calculateETA distance 30"

datatype error = TypeError | InvalidArgument

text \<open>
  The outcome of a call as a value, \<open>Inl\<close> for an exception. Neither \<open>calculateETA\<close>
  nor the fare expression of \<open>calculateTripDetails\<close> has a \<open>throw\<close> or a check of
  its arguments, so neither outcome has an error branch.
\<close>

definition calculateETA_outcome :: "real \<Rightarrow> real \<Rightarrow> error + int" where
  "calculateETA_outcome distance averageSpeed = Inr (calculateETA distance averageSpeed)"

section \<open>TripBooking: vehicles and the fare\<close>

record Vehicle =
  vtype :: string
  name :: string
  description :: string
  baseFare :: real
  perKmRate :: real
  perMinuteRate :: real
  icon :: string
  eta :: string

definition economy :: Vehicle where
  "economy = \<lparr> vtype = ''economy'', name = ''Economy'',
     description = ''Affordable, everyday rides'',
     baseFare = 25, perKmRate = 12, perMinuteRate = 2.5,
     icon = ''car'', eta = ''3-5 min'' \<rparr>"

definition comfort :: Vehicle where
  "comfort = \<lparr> vtype = ''comfort'', name = ''Comfort'',
     description = ''Newer cars with extra legroom'',
     baseFare = 35, perKmRate = 15, perMinuteRate = 3.0,
     icon = ''car-front'', eta = ''2-4 min'' \<rparr>"

definition premium :: Vehicle where
  "premium = \<lparr> vtype = ''premium'', name = ''Premium'',
     description = ''Luxury cars for special occasions'',
     baseFare = 50, perKmRate = 20, perMinuteRate = 4.0,
     icon = ''car-taxi'', eta = ''1-3 min'' \<rparr>"

definition vehicles :: "Vehicle list" where
  "vehicles = [economy, comfort, premium]"

text \<open>The fare expression of \<open>calculateTripDetails\<close>.\<close>

definition fareOf :: "Vehicle \<Rightarrow> real \<Rightarrow> real \<Rightarrow> int" where
  "fareOf vehicle distanceKm estimatedMinutes =
     Math_round (baseFare vehicle + (distanceKm * perKmRate vehicle) +
                 (estimatedMinutes * perMinuteRate vehicle))"

definition fareOf_outcome :: "Vehicle \<Rightarrow> real \<Rightarrow> real \<Rightarrow> error + int" where
  "fareOf_outcome vehicle distanceKm estimatedMinutes =
     Inr (fareOf vehicle distanceKm estimatedMinutes)"

record Coords =
  latitude :: real
  longitude :: real

text \<open>The \<open>Location\<close> interface of LocationContext; optional fields are options.\<close>

record Location = Coords +
  accuracy :: "real option"
  altitude :: "real option"
  heading :: "real option"
  speed :: "real option"
  timestamp :: real

text \<open>The state of the TripBooking page that \<open>calculateTripDetails\<close> writes.\<close>

record TripBooking =
  selectedVehicle :: string
  estimatedFare :: int
  estimatedTime :: int
  distance :: real

text \<open>
  The page reads \<open>currentLocation\<close> from the location context; here it is the first
  argument of the two functions below.
\<close>

definition mockDropoffLocation :: "Location option \<Rightarrow> Coords option" where
  "mockDropoffLocation cur =
     (case cur of
        Some loc \<Rightarrow> Some \<lparr> latitude = latitude loc + 0.05, longitude = longitude loc + 0.05 \<rparr>
      | None \<Rightarrow> None)"

text \<open>
  \<open>calculateTripDetails\<close>: returns at once without a location; reading a field of the
  result of \<open>vehicles.find\<close> raises a TypeError when no vehicle has the selected type.
\<close>

definition calculateTripDetails :: "Location option \<Rightarrow> TripBooking \<Rightarrow> error + TripBooking" where
  "calculateTripDetails cur st =
     (case (cur, mockDropoffLocation cur) of
        (Some loc, Some dropoff) \<Rightarrow>
          (let distanceKm = calculateDistance (latitude loc) (longitude loc)
                              (latitude dropoff) (longitude dropoff)
           in case find (\<lambda>v. vtype v = selectedVehicle st) vehicles of
                None \<Rightarrow> Inl TypeError
              | Some vehicle \<Rightarrow>
                  (let estimatedMinutes = calculateETA_default distanceKm;
                       fare = fareOf vehicle distanceKm (of_int estimatedMinutes)
                   in Inr (st\<lparr> distance := of_int (Math_round (distanceKm * 10)) / 10,
                               estimatedTime := estimatedMinutes,
                               estimatedFare := fare \<rparr>)))
      | _ \<Rightarrow> Inr st)"

text \<open>The example quote: a fix at (0, 0) and the economy class selected.\<close>

definition origin :: Location where
  "origin = \<lparr> latitude = 0, longitude = 0, accuracy = None, altitude = None,
     heading = None, speed = None, timestamp = 0 \<rparr>"

definition quote_input :: TripBooking where
  "quote_input = \<lparr> selectedVehicle = ''economy'', estimatedFare = 0, estimatedTime = 0,
     distance = 0 \<rparr>"

section \<open>LocationContext: the provider's state and tracking\<close>

text \<open>A callback passed by a caller is an opaque identifier.\<close>

type_synonym callback = nat

text \<open>
  The four state variables of \<open>LocationProvider\<close>, and what the Geolocation plugin
  holds for it: the position watches that are active in the platform, each with the
  caller's \<open>onLocationUpdate\<close>, and the watches whose \<open>watchPosition\<close> promise has
  not resolved yet. Functions read the state as it is when they are called.
\<close>

record LocationProvider =
  currentLocation :: "Location option"
  locationPermission :: "bool option"
  isTracking :: bool
  watchId :: "string option"
  hardwareWatches :: "(string \<times> callback option) list"
  pendingWatches :: "string list"

definition initialLocationProvider :: LocationProvider where
  "initialLocationProvider = \<lparr> currentLocation = None, locationPermission = None,
     isTracking = False, watchId = None, hardwareWatches = [], pendingWatches = [] \<rparr>"

text \<open>
  The \<open>then\<close> branch of \<open>getCurrentLocation\<close>: a requested fix arrives. The request
  itself changes no state.
\<close>

definition positionFixed :: "Location \<Rightarrow> LocationProvider \<Rightarrow> LocationProvider" where
  "positionFixed loc st = st\<lparr> currentLocation := Some loc \<rparr>"

text \<open>
  \<open>requestLocationPermission\<close>, given the platform's answer: \<open>Inr granted\<close>, or
  \<open>Inl e\<close> when the plugin throws, which the \<open>catch\<close> turns into \<open>false\<close>. When
  granted, it also calls \<open>getCurrentLocation\<close>, whose fix arrives later.
\<close>

definition requestLocationPermission ::
    "error + bool \<Rightarrow> LocationProvider \<Rightarrow> bool \<times> LocationProvider" where
  "requestLocationPermission answer st =
     (case answer of
        Inr granted \<Rightarrow> (granted, st\<lparr> locationPermission := Some granted \<rparr>)
      | Inl e \<Rightarrow> (False, st))"

text \<open>
  \<open>startLocationTracking onLocationUpdate\<close>: \<open>newId\<close> is the identifier the platform
  gives to the watch, if the call creates one. The \<open>interval\<close> argument of the source is
  not used by its body. The watch exists in the platform as soon as \<open>watchPosition\<close> is
  called; \<open>watchId\<close> and \<open>isTracking\<close> are set later, when its promise resolves.
\<close>

definition startLocationTracking ::
    "callback option \<Rightarrow> string \<Rightarrow> LocationProvider \<Rightarrow> bool \<times> LocationProvider" where
  "startLocationTracking onLocationUpdate newId st =
     (if locationPermission st \<noteq> Some True then (False, st)
      else if isTracking st then (True, st)
      else (True, st\<lparr> hardwareWatches := hardwareWatches st @ [(newId, onLocationUpdate)],
                       pendingWatches := pendingWatches st @ [newId] \<rparr>))"

text \<open>The \<open>then\<close> of \<open>watchPosition\<close>: the promise of a pending watch resolves.\<close>

definition watchResolved :: "string \<Rightarrow> LocationProvider \<Rightarrow> LocationProvider" where
  "watchResolved i st =
     (if i \<in> set (pendingWatches st)
      then st\<lparr> watchId := Some i, isTracking := True,
               pendingWatches := remove1 i (pendingWatches st) \<rparr>
      else st)"

text \<open>\<open>if (watchId)\<close> is false for \<open>null\<close> and for the empty string.\<close>

definition stopLocationTracking :: "LocationProvider \<Rightarrow> bool \<times> LocationProvider" where
  "stopLocationTracking st =
     (case watchId st of
        Some i \<Rightarrow>
          (if i \<noteq> []
           then (True, st\<lparr> hardwareWatches := filter (\<lambda>w. fst w \<noteq> i) (hardwareWatches st),
                            watchId := None, isTracking := False \<rparr>)
           else (False, st))
      | None \<Rightarrow> (False, st))"

section \<open>SocketContext\<close>

datatype UserType = passenger | driver

fun userType_string :: "UserType \<Rightarrow> string" where
  "userType_string passenger = ''passenger''"
| "userType_string driver = ''driver''"

record User =
  id_User :: string
  email :: string
  firstName :: string
  lastName :: string
  phoneNumber :: string
  userType :: UserType

text \<open>
  A socket of the socket.io client, as far as the provider uses it: the credential and
  the user its \<open>connect\<close> handler closed over, the listeners in the order of their
  registration (\<open>on\<close> appends), and the events emitted so far, each with the room name
  it carries. An inbound event calls the listeners of its name in that order.
\<close>

record Socket =
  auth :: "string option"
  owner :: "User option"
  listeners :: "(string \<times> callback) list"
  emitted :: "(string \<times> string) list"

definition socket_on :: "string \<Rightarrow> callback \<Rightarrow> Socket \<Rightarrow> Socket" where
  "socket_on event cb s = s\<lparr> listeners := listeners s @ [(event, cb)] \<rparr>"

definition socket_emit :: "string \<Rightarrow> string \<Rightarrow> Socket \<Rightarrow> Socket" where
  "socket_emit event room s = s\<lparr> emitted := emitted s @ [(event, room)] \<rparr>"


record SocketProvider =
  socket :: "Socket option"
  isConnected :: bool

definition initialSocketProvider :: SocketProvider where
  "initialSocketProvider = \<lparr> socket = None, isConnected = False \<rparr>"

text \<open>
  \<open>initializeSocket\<close>, with the \<open>user\<close> and \<open>token\<close> of the auth context; \<open>ioOk\<close> is
  false when \<open>io\<close> throws, which the \<open>catch\<close> answers by \<open>setIsConnected(false)\<close>.
\<close>

definition initializeSocket ::
    "User option \<Rightarrow> string option \<Rightarrow> bool \<Rightarrow> SocketProvider \<Rightarrow> SocketProvider" where
  "initializeSocket user token ioOk st =
     (if ioOk
      then st\<lparr> socket := Some \<lparr> auth = token, owner = user, listeners = [], emitted = [] \<rparr> \<rparr>
      else st\<lparr> isConnected := False \<rparr>)"



definition on_connect :: "SocketProvider \<Rightarrow> SocketProvider" where
  "on_connect st =
     (case socket st of
        None \<Rightarrow> st
      | Some s \<Rightarrow>
          st\<lparr> isConnected := True,
              socket := Some (case owner s of
                  Some u \<Rightarrow> socket_emit ''join-room'' (userType_string (userType u) @ ''s'')
                             (socket_emit ''join-room'' (''user-'' @ id_User u) s)
                | None \<Rightarrow> s) \<rparr>)"


definition joinTripRoom :: "string \<Rightarrow> SocketProvider \<Rightarrow> SocketProvider" where
  "joinTripRoom tripId st =
     (case socket st of
        Some s \<Rightarrow>
          (if isConnected st
           then st\<lparr> socket := Some (socket_emit ''join-room'' (''trip-'' @ tripId) s) \<rparr>
           else st)
      | None \<Rightarrow> st)"

definition leaveTripRoom :: "string \<Rightarrow> SocketProvider \<Rightarrow> SocketProvider" where
  "leaveTripRoom tripId st =
     (case socket st of
        Some s \<Rightarrow>
          (if isConnected st
           then st\<lparr> socket := Some (socket_emit ''leave-room'' (''trip-'' @ tripId) s) \<rparr>
           else st)
      | None \<Rightarrow> st)"

text \<open>
  The seven subscription functions have one body, with their event name: with a socket,
  \<open>socket.on(event, callback)\<close> and an unsubscribe function (here the pair it would
  remove) is returned; without a socket nothing is done and \<open>undefined\<close> is returned.
\<close>

definition subscribe ::
    "string \<Rightarrow> callback \<Rightarrow> SocketProvider \<Rightarrow> (string \<times> callback) option \<times> SocketProvider" where
  "subscribe event cb st =
     (case socket st of
        Some s \<Rightarrow> (Some (event, cb), st\<lparr> socket := Some (socket_on event cb s) \<rparr>)
      | None \<Rightarrow> (None, st))"

definition onTripRequest ::
    "callback \<Rightarrow> SocketProvider \<Rightarrow> (string \<times> callback) option \<times> SocketProvider" where
  "onTripRequest cb st = subscribe ''trip-request'' cb st"



definition onMessageReceived ::
    "callback \<Rightarrow> SocketProvider \<Rightarrow> (string \<times> callback) option \<times> SocketProvider" where
  "onMessageReceived cb st = subscribe ''new-message'' cb st"

definition onTripCancelled ::
    "callback \<Rightarrow> SocketProvider \<Rightarrow> (string \<times> callback) option \<times> SocketProvider" where
  "onTripCancelled cb st = subscribe ''trip-cancelled'' cb st"

definition onDriverArrived ::
    "callback \<Rightarrow> SocketProvider \<Rightarrow> (string \<times> callback) option \<times> SocketProvider" where
  "onDriverArrived cb st = subscribe ''driver-arrived'' cb st"

definition onPaymentRequested ::
    "callback \<Rightarrow> SocketProvider \<Rightarrow> (string \<times> callback) option \<times> SocketProvider" where
  "onPaymentRequested cb st = subscribe ''payment-request'' cb st"






text \<open>States used as examples below.\<close>

definition tracking_state :: LocationProvider where
  "tracking_state =
     watchResolved ''w1''
       (snd (startLocationTracking None ''w1''
          (snd (requestLocationPermission (Inr True) initialLocationProvider))))"

definition alice :: User where
  "alice = \<lparr> id_User = ''42'', email = ''a@example.org'', firstName = ''Alice'',
     lastName = ''A'', phoneNumber = ''0'', userType = driver \<rparr>"

definition fresh_socket :: SocketProvider where
  "fresh_socket = initializeSocket (Some alice) (Some ''tok'') True initialSocketProvider"

section \<open>Properties of the distance\<close>

lemma haversine_a_sym: "haversine_a lat1 lon1 lat2 lon2 = haversine_a lat2 lon2 lat1 lon1"
proof -
  have s: "sin (x / 2) * sin (x / 2) = sin (- x / 2) * sin (- x / 2)" for x :: real
    by simp
  have d1: "(lat1 - lat2) * pi / 180 = - ((lat2 - lat1) * pi / 180)"
    by (simp add: field_simps)
  have d2: "(lon1 - lon2) * pi / 180 = - ((lon2 - lon1) * pi / 180)"
    by (simp add: field_simps)
  show ?thesis
    unfolding haversine_a_def Let_def d1 d2
    by (simp add: mult.commute)
qed

lemma haversine_a_same: "haversine_a lat lon lat lon = 0"
  by (simp add: haversine_a_def)

text \<open>
  C7: the distance is symmetric in its two points, and the distance of a point to itself
  is 0.
\<close>

theorem calculateDistance_symmetric_zero:
  "calculateDistance lat1 lon1 lat2 lon2 = calculateDistance lat2 lon2 lat1 lon1
   \<and> calculateDistance lat lon lat lon = 0"
  by (simp add: calculateDistance_def haversine_a_sym [of lat1 lon1 lat2 lon2]
        haversine_a_same Math_atan2_def)

lemma haversine_a_decomp:
  "2 * haversine_a lat1 lon1 lat2 lon2 =
     (1 - cos ((lat2 - lat1) * pi / 180)) * (1 - (sin ((lon2 - lon1) * pi / 180 / 2))\<^sup>2)
     + (1 + cos ((lat2 + lat1) * pi / 180)) * (sin ((lon2 - lon1) * pi / 180 / 2))\<^sup>2"
proof -
  define A where "A = lat1 * pi / 180"
  define B where "B = lat2 * pi / 180"
  define s where "s = (sin ((lon2 - lon1) * pi / 180 / 2))\<^sup>2"
  have dl: "(lat2 - lat1) * pi / 180 = B - A" and sl: "(lat2 + lat1) * pi / 180 = B + A"
    by (simp_all add: A_def B_def field_simps)
  have h: "sin ((B - A) / 2) * sin ((B - A) / 2) = (1 - cos (B - A)) / 2"
  proof -
    have "cos (2 * ((B - A) / 2)) = 1 - 2 * (sin ((B - A) / 2))\<^sup>2"
      by (rule cos_double_sin)
    moreover have "2 * ((B - A) / 2) = B - A" by simp
    ultimately have "cos (B - A) = 1 - 2 * (sin ((B - A) / 2))\<^sup>2" by (simp only:)
    then show ?thesis by (simp add: power2_eq_square)
  qed
  have p: "cos A * cos B = (cos (B - A) + cos (B + A)) / 2"
    by (simp add: cos_diff cos_add)
  have "haversine_a lat1 lon1 lat2 lon2 = sin ((B - A) / 2) * sin ((B - A) / 2) + cos A * cos B * s"
    by (simp add: haversine_a_def Let_def dl A_def B_def s_def power2_eq_square)
  also have "\<dots> = (1 - cos (B - A)) / 2 + (cos (B - A) + cos (B + A)) / 2 * s"
    by (simp only: h p)
  finally have "2 * haversine_a lat1 lon1 lat2 lon2 =
      (1 - cos (B - A)) * (1 - s) + (1 + cos (B + A)) * s"
    by (simp add: field_simps)
  then show ?thesis
    unfolding dl sl s_def [symmetric] .
qed

lemma haversine_a_range: "0 \<le> haversine_a lat1 lon1 lat2 lon2" "haversine_a lat1 lon1 lat2 lon2 \<le> 1"
proof -
  define m where "m = cos ((lat2 - lat1) * pi / 180)"
  define n where "n = cos ((lat2 + lat1) * pi / 180)"
  define s where "s = (sin ((lon2 - lon1) * pi / 180 / 2))\<^sup>2"
  have m: "- 1 \<le> m" "m \<le> 1" and n: "- 1 \<le> n" "n \<le> 1" by (simp_all add: m_def n_def)
  have s: "0 \<le> s" "s \<le> 1"
  proof -
    show "0 \<le> s" by (simp add: s_def)
    have "s + (cos ((lon2 - lon1) * pi / 180 / 2))\<^sup>2 = 1"
      unfolding s_def by (rule sin_cos_squared_add)
    moreover have "0 \<le> (cos ((lon2 - lon1) * pi / 180 / 2))\<^sup>2" by (rule zero_le_power2)
    ultimately show "s \<le> 1" by linarith
  qed
  have e: "2 * haversine_a lat1 lon1 lat2 lon2 = (1 - m) * (1 - s) + (1 + n) * s"
    unfolding m_def n_def s_def by (rule haversine_a_decomp)
  have "0 \<le> (1 - m) * (1 - s) + (1 + n) * s" using m n s by simp
  with e show "0 \<le> haversine_a lat1 lon1 lat2 lon2" by simp
  have "0 \<le> (1 + m) * (1 - s) + (1 - n) * s" using m n s by simp
  moreover have "2 - ((1 - m) * (1 - s) + (1 + n) * s) = (1 + m) * (1 - s) + (1 - n) * s"
    by (simp add: algebra_simps)
  ultimately show "haversine_a lat1 lon1 lat2 lon2 \<le> 1" using e by linarith
qed

lemma Math_atan2_nonneg:
  assumes "0 \<le> y" "0 \<le> x"
  shows "0 \<le> Math_atan2 y x" "Math_atan2 y x \<le> pi / 2"
  using assms arctan_ubound [of "y / x"] by (auto simp: Math_atan2_def intro: less_imp_le)

text \<open>
  C10: for all real arguments the distance is non-negative, and at most \<open>pi\<close> times the
  radius of 6371 km; the intermediate \<open>a\<close> lies between 0 and 1.
\<close>

theorem calculateDistance_nonneg:
  "0 \<le> calculateDistance lat1 lon1 lat2 lon2 \<and> calculateDistance lat1 lon1 lat2 lon2 \<le> pi * 6371"
proof -
  let ?a = "haversine_a lat1 lon1 lat2 lon2"
  have "0 \<le> sqrt ?a" "0 \<le> sqrt (1 - ?a)"
    using haversine_a_range [of lat1 lon1 lat2 lon2] by simp_all
  then have "0 \<le> Math_atan2 (sqrt ?a) (sqrt (1 - ?a))" "Math_atan2 (sqrt ?a) (sqrt (1 - ?a)) \<le> pi / 2"
    by (rule Math_atan2_nonneg)+
  then show ?thesis
    by (simp add: calculateDistance_def Let_def)
qed

section \<open>Properties of the ETA and the fare\<close>

lemma vehicle_rates_nonneg:
  assumes "v \<in> set vehicles"
  shows "0 \<le> perKmRate v" "0 \<le> perMinuteRate v"
  using assms by (auto simp: vehicles_def economy_def comfort_def premium_def)

text \<open>
  C8: for each of the three vehicle classes, the fare does not decrease when the
  distance or the minutes grow.
\<close>

theorem fareOf_monotone:
  assumes "v \<in> set vehicles" "d1 \<le> d2" "e1 \<le> e2"
  shows "fareOf v d1 e1 \<le> fareOf v d2 e2"
proof -
  have "d1 * perKmRate v \<le> d2 * perKmRate v"
    using assms(2) vehicle_rates_nonneg(1) [OF assms(1)] by (rule mult_right_mono)
  moreover have "e1 * perMinuteRate v \<le> e2 * perMinuteRate v"
    using assms(3) vehicle_rates_nonneg(2) [OF assms(1)] by (rule mult_right_mono)
  ultimately show ?thesis
    unfolding fareOf_def Math_round_def by (intro floor_mono) linarith
qed

theorem fareOf_monotone_witness:
  "economy \<in> set vehicles \<and> (1::real) \<le> 2 \<and> (3::real) \<le> 4
   \<and> fareOf economy 1 3 \<le> fareOf economy 2 4 \<and> fareOf economy 1 3 = 45 \<and> fareOf economy 2 4 = 59"
proof -
  have v: "economy \<in> set vehicles" by (simp add: vehicles_def)
  have "fareOf economy 1 3 = 45" "fareOf economy 2 4 = 59"
    by (simp_all add: fareOf_def Math_round_def economy_def)
  with v fareOf_monotone [OF v, of 1 2 3 4] show ?thesis by simp
qed

text \<open>
  C2, as stated, fails: at the distance \<open>-1\<close> the ETA is the number \<open>-2\<close> and the economy
  fare is the number 8; no InvalidArgument is raised.
\<close>

theorem negative_distance_counterexample:
  "calculateETA_outcome (- 1) 30 = Inr (- 2)
   \<and> calculateETA_outcome (- 1) 30 \<noteq> Inl InvalidArgument
   \<and> fareOf_outcome economy (- 1) (of_int (calculateETA (- 1) 30)) = Inr 8
   \<and> fareOf_outcome economy (- 1) (of_int (calculateETA (- 1) 30)) \<noteq> Inl InvalidArgument"
  by (simp add: calculateETA_outcome_def calculateETA_def Math_ceil_def
        fareOf_outcome_def fareOf_def Math_round_def economy_def)

text \<open>
  C2, amended: for every negative distance, \<open>calculateETA\<close> with the default speed
  returns a number, which is at most 0, and at most \<open>-1\<close> when the distance is at most
  \<open>-1\<close>; the fare expression, for each of the three vehicle classes and any minutes that
  are at most 0 (such as that ETA), returns a number, which is at most the base fare, and
  below it when the distance is at most \<open>-1\<close>. Neither raises InvalidArgument and neither
  clamps the distance. These bounds rest only on the monotonicity of the division, the
  products, the sums, \<open>Math.ceil\<close> and \<open>Math.round\<close>, so they do not depend on how the
  arithmetic rounds.
\<close>

theorem negative_distance_numeric:
  assumes "d < 0" "v \<in> set vehicles" "e \<le> 0"
  shows "(\<exists>n. calculateETA_outcome d 30 = Inr n \<and> n \<le> 0 \<and> (d \<le> - 1 \<longrightarrow> n \<le> - 1))
    \<and> (\<exists>f. fareOf_outcome v d e = Inr f \<and> real_of_int f \<le> baseFare v
           \<and> (d \<le> - 1 \<longrightarrow> real_of_int f < baseFare v))"
proof -
  have eta: "calculateETA d 30 = \<lceil>d * 2\<rceil>"
    by (simp add: calculateETA_def Math_ceil_def mult.commute)
  have "d * 2 \<le> 0" using assms(1) by simp
  then have 1: "calculateETA d 30 \<le> 0" by (simp add: eta ceiling_le_iff)
  have 2: "calculateETA d 30 \<le> - 1" if "d \<le> - 1"
  proof -
    have "d * 2 \<le> - 1" using that by simp
    then show ?thesis by (simp add: eta ceiling_le_iff)
  qed
  obtain b k :: int where b: "baseFare v = of_int b" and k: "perKmRate v = of_int k" "1 \<le> k"
    using assms(2)
    by (auto simp: vehicles_def economy_def comfort_def premium_def
          intro: that [of 25 12] that [of 35 15] that [of 50 20])
  have m: "e * perMinuteRate v \<le> 0"
    using assms(3) vehicle_rates_nonneg(2) [OF assms(2)] by (simp add: mult_le_0_iff)
  have dk: "d * of_int k < 0" using assms(1) k(2) by (simp add: mult_less_0_iff)
  have 3: "fareOf v d e \<le> b"
    using dk m unfolding fareOf_def Math_round_def b k(1) by (simp add: floor_le_iff)
  have 4: "fareOf v d e < b" if "d \<le> - 1"
  proof -
    have "d * of_int k \<le> - 1 * of_int k"
      using that k(2) by (intro mult_right_mono) simp_all
    then have "d * of_int k \<le> - 1" using k(2) by linarith
    then show ?thesis
      using m unfolding fareOf_def Math_round_def b k(1) by (simp add: floor_less_iff)
  qed
  have A: "\<exists>n. calculateETA_outcome d 30 = Inr n \<and> n \<le> 0 \<and> (d \<le> - 1 \<longrightarrow> n \<le> - 1)"
    using 1 2 by (simp add: calculateETA_outcome_def)
  have B: "\<exists>f. fareOf_outcome v d e = Inr f \<and> real_of_int f \<le> baseFare v
           \<and> (d \<le> - 1 \<longrightarrow> real_of_int f < baseFare v)"
    using 3 4 by (simp add: fareOf_outcome_def b)
  from A B show ?thesis by (rule conjI)
qed

theorem negative_distance_numeric_witness:
  "(- 1 :: real) < 0 \<and> economy \<in> set vehicles \<and> real_of_int (calculateETA (- 1) 30) \<le> 0
   \<and> (- 1 :: real) \<le> - 1
   \<and> calculateETA_outcome (- 1) 30 = Inr (- 2)
   \<and> fareOf_outcome economy (- 1) (of_int (calculateETA (- 1) 30)) = Inr 8
   \<and> real_of_int 8 < baseFare economy"
proof -
  have d: "(- 1 :: real) < 0" by simp
  have v: "economy \<in> set vehicles" by (simp add: vehicles_def)
  have e: "real_of_int (calculateETA (- 1) 30) \<le> 0"
    by (simp add: calculateETA_def Math_ceil_def)
  from negative_distance_numeric [OF d v e] d v e show ?thesis
    by (simp add: economy_def calculateETA_outcome_def calculateETA_def Math_ceil_def
          fareOf_outcome_def fareOf_def Math_round_def)
qed

section \<open>The example quote\<close>

lemma sin_coeff_vals:
  "sin_coeff 0 = 0" "sin_coeff (Suc 0) = 1" "sin_coeff 2 = 0" "sin_coeff 3 = - 1 / 6"
  "sin_coeff 4 = 0" "sin_coeff 5 = 1 / 120" "sin_coeff 6 = 0"
  by (simp_all add: sin_coeff_def fact_numeral)

lemma sin_taylor7:
  fixes x :: real
  shows "\<bar>sin x - (x - x^3 / 6 + x^5 / 120)\<bar> \<le> \<bar>x\<bar>^7 / 5040"
proof -
  have s: "{..<7::nat} = {0, 1, 2, 3, 4, 5, 6}" by auto
  have "(\<Sum>m<7. sin_coeff m * x ^ m) = x - x^3 / 6 + x^5 / 120"
    unfolding s by (simp add: sin_coeff_vals)
  moreover have "inverse (fact 7) * \<bar>x\<bar> ^ 7 = \<bar>x\<bar> ^ 7 / 5040"
    by (simp add: fact_numeral)
  ultimately show ?thesis
    using Maclaurin_sin_bound [of x 7] by (simp only:)
qed

lemma pi_lower: "3.141 < pi"
proof -
  define x :: real where "x = 3.141 / 6"
  have "sin x \<le> (x - x^3 / 6 + x^5 / 120) + \<bar>x\<bar>^7 / 5040"
    using sin_taylor7 [of x] by linarith
  also have "\<dots> < 1 / 2" by (simp add: x_def power_divide)
  finally have "sin x < sin (pi / 6)" by (simp add: sin_30)
  moreover have "- (pi / 2) \<le> x" "x \<le> pi / 2" "- (pi / 2) \<le> pi / 6" "pi / 6 \<le> pi / 2"
    using pi_ge_two by (simp_all add: x_def)
  ultimately have "x < pi / 6" by (simp add: sin_mono_less_eq)
  then show ?thesis by (simp add: x_def)
qed

lemma pi_upper: "pi < 3.142"
proof -
  define x :: real where "x = 3.142 / 6"
  have "1 / 2 < (x - x^3 / 6 + x^5 / 120) - \<bar>x\<bar>^7 / 5040" by (simp add: x_def power_divide)
  also have "\<dots> \<le> sin x"
    using sin_taylor7 [of x] by linarith
  finally have "sin (pi / 6) < sin x" by (simp add: sin_30)
  moreover have "- (pi / 2) \<le> x" "x \<le> pi / 2" "- (pi / 2) \<le> pi / 6" "pi / 6 \<le> pi / 2"
    using pi_ge_two by (simp_all add: x_def)
  ultimately have "pi / 6 < x" by (simp add: sin_mono_less_eq)
  then show ?thesis by (simp add: x_def)
qed


lemma sin_taylor3:
  fixes x :: real
  shows "\<bar>sin x - x\<bar> \<le> \<bar>x\<bar>^3 / 6"
proof -
  have s: "{..<3::nat} = {0, 1, 2}" by auto
  have "(\<Sum>m<3. sin_coeff m * x ^ m) = x"
    unfolding s by (simp add: sin_coeff_vals)
  moreover have "inverse (fact 3) * \<bar>x\<bar> ^ 3 = \<bar>x\<bar> ^ 3 / 6"
    by (simp add: fact_numeral)
  ultimately show ?thesis
    using Maclaurin_sin_bound [of x 3] by (simp only:)
qed

lemma Math_atan2_sqrt:
  assumes "0 \<le> a" "a < 1"
  shows "Math_atan2 (sqrt a) (sqrt (1 - a)) = arcsin (sqrt a)"
proof -
  have p: "0 < sqrt (1 - a)" using assms by simp
  have "sqrt a < 1" using assms by (simp add: real_sqrt_less_iff [of a 1, simplified])
  moreover have "- 1 < sqrt a" using assms by (simp add: order.strict_trans2 [of "- 1" 0])
  ultimately have "arcsin (sqrt a) = arctan (sqrt a / sqrt (1 - (sqrt a)\<^sup>2))"
    by (rule arcsin_arctan [rotated])
  also have "(sqrt a)\<^sup>2 = a" using assms by simp
  finally show ?thesis using p by (simp add: Math_atan2_def)
qed

lemma arcsin_ge_self:
  assumes "0 \<le> x" "x \<le> 1"
  shows "x \<le> arcsin x"
proof -
  have "0 \<le> arcsin x" using assms by (simp add: arcsin_nonneg)
  then have "sin (arcsin x) \<le> arcsin x" by (rule sin_x_le_x)
  then show ?thesis using assms by simp
qed

text \<open>The quote at pickup (0, 0): the haversine intermediate is \<open>2 s\<^sup>2 (1 - s\<^sup>2)\<close> for \<open>s = sin (pi / 7200)\<close>.\<close>

lemma haversine_a_quote:
  "haversine_a 0 0 0.05 0.05 = 2 * (sin (pi / 7200))\<^sup>2 * (1 - (sin (pi / 7200))\<^sup>2)"
proof -
  have "cos (2 * (pi / 7200)) = 1 - 2 * (sin (pi / 7200))\<^sup>2"
    by (rule cos_double_sin)
  then have c: "cos (pi / 3600) = 1 - 2 * (sin (pi / 7200))\<^sup>2" by simp
  show ?thesis
    by (simp add: haversine_a_def Let_def c power2_eq_square algebra_simps)
qed

lemma sin_quote_bounds:
  "3.141 / 7200 - (3.142 / 7200) ^ 3 / 6 \<le> sin (pi / 7200)"
  "sin (pi / 7200) \<le> 3.142 / 7200"
proof -
  define t :: real where "t = pi / 7200"
  have tl: "3.141 / 7200 < t" and tu: "t < 3.142 / 7200"
    using pi_lower pi_upper by (simp_all add: t_def)
  then have t0: "0 \<le> t" by simp
  define c :: real where "c = (3.142 / 7200) ^ 3"
  have "t ^ 3 \<le> c"
    unfolding c_def using t0 tu by (intro power_mono) simp_all
  moreover have "t - \<bar>t\<bar> ^ 3 / 6 \<le> sin t" using sin_taylor3 [of t] by linarith
  moreover have "\<bar>t\<bar> = t" using t0 by simp
  ultimately have "3.141 / 7200 - c / 6 \<le> sin t"
    using tl by simp
  then show "3.141 / 7200 - (3.142 / 7200) ^ 3 / 6 \<le> sin (pi / 7200)"
    unfolding t_def c_def .
  have "sin t \<le> t" using t0 by (rule sin_x_le_x)
  then show "sin (pi / 7200) \<le> 3.142 / 7200"
    using tu unfolding t_def [symmetric] by simp
qed

lemma haversine_a_quote_bounds:
  "(7.86 / 12742)\<^sup>2 < haversine_a 0 0 0.05 0.05"
  "haversine_a 0 0 0.05 0.05 < (7.865 / 12742 - (7.865 / 12742) ^ 3 / 6)\<^sup>2"
proof -
  define s where "s = sin (pi / 7200)"
  define sl :: real where "sl = 3.141 / 7200 - (3.142 / 7200) ^ 3 / 6"
  define su :: real where "su = 3.142 / 7200"
  have sl: "sl \<le> s" and su: "s \<le> su"
    using sin_quote_bounds by (simp_all add: s_def sl_def su_def)
  have sl0: "0 < sl" by (simp add: sl_def power_divide)
  have s0: "0 \<le> s" using sl sl0 by simp
  have l2: "sl\<^sup>2 \<le> s\<^sup>2" using sl sl0 by (intro power_mono) simp_all
  have u2: "s\<^sup>2 \<le> su\<^sup>2" using su s0 by (intro power_mono) simp_all
  have su1: "su\<^sup>2 < 1" by (simp add: su_def power_divide)
  have a: "haversine_a 0 0 0.05 0.05 = 2 * s\<^sup>2 * (1 - s\<^sup>2)"
    unfolding s_def by (rule haversine_a_quote)
  have "(7.86 / 12742)\<^sup>2 < 2 * sl\<^sup>2 * (1 - su\<^sup>2)"
    by (simp add: sl_def su_def power_divide)
  also have "\<dots> \<le> 2 * s\<^sup>2 * (1 - su\<^sup>2)"
    using l2 su1 by (simp add: mult_right_mono)
  also have "\<dots> \<le> 2 * s\<^sup>2 * (1 - s\<^sup>2)"
    using u2 by (simp add: mult_left_mono)
  finally show "(7.86 / 12742)\<^sup>2 < haversine_a 0 0 0.05 0.05" by (simp only: a)
  have "2 * s\<^sup>2 * (1 - s\<^sup>2) \<le> 2 * s\<^sup>2"
    by (simp add: mult_left_le)
  also have "\<dots> \<le> 2 * su\<^sup>2" using u2 by simp
  also have "\<dots> < (7.865 / 12742 - (7.865 / 12742) ^ 3 / 6)\<^sup>2"
    by (simp add: su_def power_divide)
  finally show "haversine_a 0 0 0.05 0.05 < (7.865 / 12742 - (7.865 / 12742) ^ 3 / 6)\<^sup>2"
    by (simp only: a)
qed

lemma calculateDistance_quote_bounds:
  "7.86 < calculateDistance 0 0 0.05 0.05" "calculateDistance 0 0 0.05 0.05 < 7.865"
proof -
  define a where "a = haversine_a 0 0 0.05 0.05"
  define v :: real where "v = 7.865 / 12742"
  have al: "(7.86 / 12742)\<^sup>2 < a" and au: "a < (v - v ^ 3 / 6)\<^sup>2"
    using haversine_a_quote_bounds by (simp_all add: a_def v_def)
  have "(0::real) \<le> (7.86 / 12742)\<^sup>2" by (rule zero_le_power2)
  then have a0: "0 \<le> a" using al by linarith
  have v0: "0 \<le> v - v ^ 3 / 6" "v - v ^ 3 / 6 < 1" "0 \<le> v" "v \<le> 1"
    by (simp_all add: v_def power_divide)
  have "(v - v ^ 3 / 6)\<^sup>2 < 1\<^sup>2"
    using v0 by (intro power_strict_mono) simp_all
  then have a1: "a < 1" using au by simp
  define dist where "dist = calculateDistance 0 0 0.05 0.05"
  have d: "dist = 12742 * arcsin (sqrt a)"
    using Math_atan2_sqrt [OF a0 a1] by (simp add: dist_def calculateDistance_def Let_def a_def)
  have s0: "0 \<le> sqrt a" "sqrt a \<le> 1" using a0 a1 by simp_all
  have "7.86 / 12742 < sqrt a"
    using al by (intro real_less_rsqrt) 
  also have "\<dots> \<le> arcsin (sqrt a)" using s0 by (rule arcsin_ge_self)
  finally have "7.86 < dist" by (simp add: d)
  then show "7.86 < calculateDistance 0 0 0.05 0.05" unfolding dist_def .
  have "sqrt a < v - v ^ 3 / 6"
    using au v0 by (intro real_less_lsqrt) simp_all
  also have "\<dots> \<le> sin v"
  proof -
    have "\<bar>v\<bar> = v" using v0 by simp
    with sin_taylor3 [of v] have "\<bar>sin v - v\<bar> \<le> v ^ 3 / 6" by simp
    then show ?thesis by linarith
  qed
  finally have "sqrt a < sin v" .
  moreover have "v \<le> pi / 2" using pi_ge_two v0 by simp
  moreover have "- 1 \<le> sqrt a" using s0 by linarith
  ultimately have "arcsin (sqrt a) < v"
    using v0 arcsin_less_arcsin [of "sqrt a" "sin v"] arcsin_sin [of v] by simp
  then have "dist < 7.865" by (simp add: d v_def)
  then show "calculateDistance 0 0 0.05 0.05 < 7.865" unfolding dist_def .
qed

lemma quote_values:
  "calculateETA_default (calculateDistance 0 0 0.05 0.05) = 16"
  "fareOf economy (calculateDistance 0 0 0.05 0.05) 16 = 159"
  "calculateTripDetails (Some origin) quote_input =
     Inr (quote_input\<lparr> distance := 7.9, estimatedTime := 16, estimatedFare := 159 \<rparr>)"
proof -
  define d where "d = calculateDistance 0 0 0.05 0.05"
  have b: "7.86 < d" "d < 7.865"
    using calculateDistance_quote_bounds by (simp_all add: d_def)
  have 2: "calculateETA_default d = 16"
    using b by (simp add: calculateETA_default_def calculateETA_def Math_ceil_def ceiling_eq_iff)
  have 3: "fareOf economy d 16 = 159"
    using b by (simp add: fareOf_def Math_round_def economy_def floor_eq_iff)
  have 4: "Math_round (d * 10) = 79"
    using b by (simp add: Math_round_def floor_eq_iff)
  have f: "find (\<lambda>v. vtype v = ''economy'') vehicles = Some economy"
    by (simp add: vehicles_def economy_def)
  have 5: "calculateTripDetails (Some origin) quote_input =
        Inr (quote_input\<lparr> distance := 7.9, estimatedTime := 16, estimatedFare := 159 \<rparr>)"
    using 2 3 4 f
    by (simp add: calculateTripDetails_def quote_input_def mockDropoffLocation_def origin_def
          d_def Let_def)
  from 2 show "calculateETA_default (calculateDistance 0 0 0.05 0.05) = 16" unfolding d_def .
  from 3 show "fareOf economy (calculateDistance 0 0 0.05 0.05) 16 = 159" unfolding d_def .
  from 5 show "calculateTripDetails (Some origin) quote_input =
     Inr (quote_input\<lparr> distance := 7.9, estimatedTime := 16, estimatedFare := 159 \<rparr>)" .
qed

text \<open>
  C1, as stated, fails: for the pickup (0, 0), the dropoff (0.05, 0.05) and the economy
  class, the fare that \<open>calculateTripDetails\<close> stores is 159, not 157.
\<close>

theorem quote_fare_counterexample:
  "\<not> isl (calculateTripDetails (Some origin) quote_input)
   \<and> estimatedFare (projr (calculateTripDetails (Some origin) quote_input)) = 159
   \<and> estimatedFare (projr (calculateTripDetails (Some origin) quote_input)) \<noteq> 157
   \<and> fareOf economy (calculateDistance 0 0 0.05 0.05)
        (of_int (calculateETA_default (calculateDistance 0 0 0.05 0.05))) \<noteq> 157"
proof -
  have f: "fareOf economy (calculateDistance 0 0 0.05 0.05)
        (of_int (calculateETA_default (calculateDistance 0 0 0.05 0.05))) = 159"
    by (simp only: quote_values of_int_numeral)
  show ?thesis unfolding f quote_values(3) by simp
qed

text \<open>
  C1, amended: for that input the distance is within 0.005 of 7.86 km, the ETA is 16
  minutes, and the fare is 159; \<open>calculateTripDetails\<close> stores the distance 7.9, the
  time 16 and the fare 159.
\<close>

theorem quote_example:
  "\<bar>calculateDistance 0 0 0.05 0.05 - 7.86\<bar> < 0.005
   \<and> calculateETA_default (calculateDistance 0 0 0.05 0.05) = 16
   \<and> fareOf economy (calculateDistance 0 0 0.05 0.05)
        (of_int (calculateETA_default (calculateDistance 0 0 0.05 0.05))) = 159
   \<and> calculateTripDetails (Some origin) quote_input =
        Inr (quote_input\<lparr> distance := 7.9, estimatedTime := 16, estimatedFare := 159 \<rparr>)"
proof -
  have "\<bar>calculateDistance 0 0 0.05 0.05 - 7.86\<bar> < 0.005"
    using calculateDistance_quote_bounds by (simp add: abs_less_iff)
  then show ?thesis by (simp only: quote_values of_int_numeral simp_thms)
qed

section \<open>Properties of location tracking\<close>

text \<open>
  C9: without the location permission (\<open>null\<close> or \<open>false\<close>), \<open>startLocationTracking\<close>
  returns false and leaves the whole state as it was: no watch is created in the
  platform, \<open>isTracking\<close>, \<open>watchId\<close> and \<open>currentLocation\<close> keep their values.
\<close>

theorem startLocationTracking_denied:
  assumes "locationPermission st \<noteq> Some True"
  shows "startLocationTracking cb newId st = (False, st)"
  using assms by (simp add: startLocationTracking_def)

theorem startLocationTracking_denied_witness:
  "locationPermission initialLocationProvider \<noteq> Some True
   \<and> startLocationTracking (Some 1) ''w1'' initialLocationProvider = (False, initialLocationProvider)
   \<and> isTracking initialLocationProvider = False \<and> watchId initialLocationProvider = None
   \<and> hardwareWatches initialLocationProvider = []"
proof -
  have h: "locationPermission initialLocationProvider \<noteq> Some True"
    by (simp add: initialLocationProvider_def)
  from startLocationTracking_denied [OF h, of "Some 1" "''w1''"] h show ?thesis
    by (simp add: initialLocationProvider_def)
qed

lemma tracking_state_eq:
  "tracking_state = \<lparr> currentLocation = None, locationPermission = Some True,
     isTracking = True, watchId = Some ''w1'', hardwareWatches = [(''w1'', None)],
     pendingWatches = [] \<rparr>"
  by (simp add: tracking_state_def watchResolved_def startLocationTracking_def
        requestLocationPermission_def initialLocationProvider_def)

text \<open>
  C5, as stated, fails. First, the permission is checked before \<open>isTracking\<close>: once a
  later permission request is denied, a call with \<open>isTracking\<close> true returns false.
  Second, two calls before the first watch's promise resolves create two watches in the
  platform.
\<close>

theorem startLocationTracking_active_counterexample:
  "isTracking (snd (requestLocationPermission (Inr False) tracking_state))
   \<and> fst (startLocationTracking None ''w2'' (snd (requestLocationPermission (Inr False) tracking_state))) = False
   \<and> map fst (hardwareWatches (snd (startLocationTracking None ''w2''
        (snd (startLocationTracking None ''w1''
          (snd (requestLocationPermission (Inr True) initialLocationProvider))))))) = [''w1'', ''w2'']"
  by (simp add: tracking_state_eq startLocationTracking_def
        requestLocationPermission_def initialLocationProvider_def)

text \<open>
  C5, amended: while \<open>isTracking\<close> is true, \<open>startLocationTracking\<close> creates no watch
  and leaves the whole state, \<open>watchId\<close> included, as it was; it returns true when the
  permission is granted, and false otherwise.
\<close>

theorem startLocationTracking_active:
  assumes "isTracking st"
  shows "startLocationTracking cb newId st = (locationPermission st = Some True, st)"
  using assms by (simp add: startLocationTracking_def)

theorem startLocationTracking_active_witness:
  "isTracking tracking_state
   \<and> startLocationTracking (Some 7) ''w2'' tracking_state = (True, tracking_state)
   \<and> watchId tracking_state = Some ''w1''
   \<and> hardwareWatches tracking_state = [(''w1'', None)]"
proof -
  have h: "isTracking tracking_state" by (simp add: tracking_state_eq)
  from startLocationTracking_active [OF h, of "Some 7" "''w2''"] h show ?thesis
    by (simp add: tracking_state_eq)
qed

section \<open>Properties of the socket provider\<close>

text \<open>
  C4: without a socket, or with \<open>isConnected\<close> false, \<open>joinTripRoom\<close> and
  \<open>leaveTripRoom\<close> return the state as it was, the list of emitted events and the
  listeners included: nothing is emitted and nothing is kept for later.
\<close>

theorem trip_room_dropped_when_not_connected:
  assumes "socket st = None \<or> \<not> isConnected st"
  shows "joinTripRoom tripId st = st \<and> leaveTripRoom tripId st = st"
  using assms by (auto simp: joinTripRoom_def leaveTripRoom_def split: option.splits)

theorem trip_room_dropped_when_not_connected_witness:
  "(socket fresh_socket = None \<or> \<not> isConnected fresh_socket)
   \<and> joinTripRoom ''t1'' fresh_socket = fresh_socket
   \<and> leaveTripRoom ''t1'' fresh_socket = fresh_socket
   \<and> map_option emitted (socket (on_connect (joinTripRoom ''t1'' fresh_socket))) =
       Some [(''join-room'', ''user-42''), (''join-room'', ''drivers'')]"
proof -
  have h: "socket fresh_socket = None \<or> \<not> isConnected fresh_socket"
    by (simp add: fresh_socket_def initializeSocket_def initialSocketProvider_def)
  have j: "joinTripRoom ''t1'' fresh_socket = fresh_socket"
    using trip_room_dropped_when_not_connected [OF h, of "''t1''"] by simp
  have "map_option emitted (socket (on_connect fresh_socket)) =
       Some [(''join-room'', ''user-42''), (''join-room'', ''drivers'')]"
    by (simp add: fresh_socket_def initializeSocket_def initialSocketProvider_def
          on_connect_def socket_emit_def alice_def)
  with h j trip_room_dropped_when_not_connected [OF h, of "''t1''"] show ?thesis by simp
qed

text \<open>
  C6: when the \<open>connect\<close> handler runs on a socket created for a logged-in user,
  \<open>isConnected\<close> becomes true, and exactly two events are emitted, in this order:
  \<open>join-room\<close> with \<open>user-\<close> followed by the user's id, and \<open>join-room\<close> with the
  user's type followed by \<open>s\<close>.
\<close>

theorem connect_joins_standing_rooms:
  assumes "socket st = Some s" "owner s = Some u"
  shows "isConnected (on_connect st)
   \<and> map_option emitted (socket (on_connect st)) =
       Some (emitted s @ [(''join-room'', ''user-'' @ id_User u),
                          (''join-room'', userType_string (userType u) @ ''s'')])
   \<and> map_option listeners (socket (on_connect st)) = Some (listeners s)"
  using assms by (simp add: on_connect_def socket_emit_def)

theorem connect_joins_standing_rooms_witness:
  "socket fresh_socket = Some \<lparr> auth = Some ''tok'', owner = Some alice, listeners = [], emitted = [] \<rparr>
   \<and> owner \<lparr> auth = Some ''tok'', owner = Some alice, listeners = [], emitted = [] \<rparr> = Some alice
   \<and> isConnected (on_connect fresh_socket)
   \<and> map_option emitted (socket (on_connect fresh_socket)) =
       Some [(''join-room'', ''user-42''), (''join-room'', ''drivers'')]"
proof -
  let ?s = "\<lparr> auth = Some ''tok'', owner = Some alice, listeners = [], emitted = [] \<rparr>"
  have a: "socket fresh_socket = Some ?s"
    by (simp add: fresh_socket_def initializeSocket_def initialSocketProvider_def)
  have b: "owner ?s = Some alice" by simp
  from connect_joins_standing_rooms [OF a b] a b show ?thesis
    by (simp add: alice_def)
qed









end
